theory Spec2Isabelle
  imports Complex_Main "HOL-Library.Signed_Division" "HOL-Library.Finite_Map"
begin

section \<open>The year grid of \<open>script.js\<close>\<close>

text \<open>
  The program draws one dot per day of the current year on a canvas. This theory embeds
  the three classes of \<open>src/script.js\<close> (\<open>Settings\<close>, \<open>Renderer\<close> and the event
  handlers of \<open>App\<close>) and states the properties of the specification over them.

  JavaScript numbers that the code only uses as integers (years, day numbers, loop
  counters) are \<open>int\<close> or \<open>nat\<close>; \<open>%\<close> is the truncating remainder \<open>smod\<close>.
\<close>

subsection \<open>Exceptions\<close>

text \<open>
  The exceptions of the platform that the code can run into: \<open>JSON.parse\<close> on a string
  that is not a JSON text, and \<open>arc\<close> with a negative radius.
\<close>

datatype error = SyntaxError | IndexSizeError

subsection \<open>Cells and grids\<close>

datatype status = Past | Today | Future

record cell =
  day :: int
  status :: status

text \<open>A grid cell is \<open>null\<close> (\<open>None\<close>) or an object \<open>{ day, status }\<close>.\<close>

type_synonym grid = "cell option list list"

subsection \<open>The platform's \<open>Date\<close>\<close>

text \<open>
  \<open>buildGrid\<close> evaluates \<open>new Date(year, 0, 1).getDay()\<close>. The functions below follow
  the algorithms of ECMAScript (section \<open>Date Objects\<close>) for these arguments. A time value
  is a number of milliseconds since 1 January 1970, or \<open>NaN\<close> (\<open>None\<close>): the constructor
  yields \<open>NaN\<close> outside the range of \<open>TimeClip\<close>. Local time is taken to be UTC.
\<close>

definition msPerDay :: int where
  "msPerDay = 86400000"

definition DayFromYear :: "int \<Rightarrow> int" where
  "DayFromYear y =
     365 * (y - 1970) + (y - 1969) div 4 - (y - 1901) div 100 + (y - 1601) div 400"

text \<open>\<open>MakeDay(year, 0, 1)\<close>: the day number of the first day of the year.\<close>

definition MakeDay_Jan1 :: "int \<Rightarrow> int" where
  "MakeDay_Jan1 yr = DayFromYear yr"

definition TimeClip :: "int \<Rightarrow> int option" where
  "TimeClip t = (if \<bar>t\<bar> > 8640000000000000 then None else Some t)"

text \<open>
  \<open>new Date(year, 0, 1)\<close>: the constructor reads an integer year from 0 to 99 as
  \<open>1900 + year\<close>.
\<close>

definition new_Date_Jan1 :: "int \<Rightarrow> int option" where
  "new_Date_Jan1 year =
     (let yr = (if 0 \<le> year \<and> year \<le> 99 then 1900 + year else year)
      in TimeClip (MakeDay_Jan1 yr * msPerDay))"

text \<open>\<open>getDay()\<close>: 0 is Sunday; \<open>NaN\<close> on an invalid date.\<close>

definition getDay :: "int option \<Rightarrow> int option" where
  "getDay tv = (case tv of None \<Rightarrow> None | Some t \<Rightarrow> Some ((t div msPerDay + 4) mod 7))"

subsection \<open>\<open>Renderer\<close>: configuration and \<open>resize\<close>\<close>

text \<open>The configuration constants the constructor sets and nothing changes.\<close>

definition cols :: nat where
  "cols = 7"

definition dotGapX :: nat where
  "dotGapX = 28"

definition dotGapY :: nat where
  "dotGapY = 14"

text \<open>
  The canvas element: its CSS size in pixels and its bitmap size (an integer attribute:
  the assignment truncates).
\<close>

record canvas =
  style_width :: nat
  style_height :: nat
  width :: int
  height :: int

text \<open>
  The 2D context. Only what \<open>draw\<close> and \<open>resize\<close> touch is kept: the current path (the
  code adds full circles only), the drawing state, and \<open>painted\<close>, the log of what reached
  the bitmap, oldest first. A \<open>Fill\<close> records the path it painted together with the fill
  style, alpha, shadow blur and shadow colour in force. That an assignment to the bitmap
  size also resets the drawing state is not modelled.
\<close>

record arc =
  cx :: real
  cy :: real
  radius :: real
  startAngle :: real
  endAngle :: real

datatype paint =
    ClearRect real real real real
  | Fill "arc list" string real real string

record context2d =
  transform :: "real \<times> real \<times> real \<times> real \<times> real \<times> real"
  path :: "arc list"
  fillStyle :: string
  globalAlpha :: real
  shadowBlur :: real
  shadowColor :: string
  painted :: "paint list"

record renderer =
  canvas :: canvas
  ctx :: context2d
  dpr :: real
  animFrame :: "nat option"
  startTime :: real
  grid :: grid

definition resize :: "renderer \<Rightarrow> renderer" where
  "resize rd =
     (if length (grid rd) = 0 then rd
      else
        let rows = length (grid rd);
            w = cols * dotGapX;
            h = rows * dotGapY
        in rd\<lparr>canvas := (canvas rd)\<lparr>
               style_width := w,
               style_height := h,
               width := \<lfloor>real w * dpr rd\<rfloor>,
               height := \<lfloor>real h * dpr rd\<rfloor>\<rparr>,
             ctx := (ctx rd)\<lparr>transform := (dpr rd, 0, 0, dpr rd, 0, 0)\<rparr>\<rparr>)"

text \<open>
  The constructor, from the canvas element, its context, \<open>window.devicePixelRatio\<close> and
  \<open>performance.now()\<close>; \<open>devicePixelRatio || 1\<close> replaces a falsy ratio by 1.
\<close>

definition new_Renderer :: "canvas \<Rightarrow> context2d \<Rightarrow> real \<Rightarrow> real \<Rightarrow> renderer" where
  "new_Renderer cv c devicePixelRatio now =
     \<lparr>canvas = cv, ctx = c,
      dpr = min (if devicePixelRatio = 0 then 1 else devicePixelRatio) 2,
      animFrame = None, startTime = now, grid = []\<rparr>"

text \<open>A canvas element as the page creates it, and its untouched context.\<close>

definition blank_canvas :: canvas where
  "blank_canvas = \<lparr>style_width = 300, style_height = 150, width = 300, height = 150\<rparr>"

definition blank_context :: context2d where
  "blank_context =
     \<lparr>transform = (1, 0, 0, 1, 0, 0), path = [], fillStyle = ''#000000'', globalAlpha = 1,
      shadowBlur = 0, shadowColor = ''rgba(0, 0, 0, 0)'', painted = []\<rparr>"

subsection \<open>\<open>Renderer.buildGrid\<close>\<close>

definition isLeap :: "int \<Rightarrow> bool" where
  "isLeap year \<longleftrightarrow> (year smod 4 = 0 \<and> year smod 100 \<noteq> 0) \<or> (year smod 400 = 0)"

definition totalDays :: "int \<Rightarrow> int" where
  "totalDays year = (if isLeap year then 366 else 365)"

definition startDay :: "int \<Rightarrow> int option" where
  "startDay year = getDay (new_Date_Jan1 year)"

text \<open>\<open>(startDay + 6) % 7\<close>; \<open>NaN\<close> stays \<open>NaN\<close>.\<close>

definition offset :: "int \<Rightarrow> nat option" where
  "offset year = map_option (\<lambda>sd. nat ((sd + 6) smod 7)) (startDay year)"

text \<open>
  The inner loop \<open>for (let c = 0; c < this.cols; c++)\<close> of row \<open>r\<close>: it pushes one
  cell per column on \<open>rowData\<close> and advances \<open>dayCount\<close> past every day it places.
\<close>

function fill_row ::
  "nat \<Rightarrow> int \<Rightarrow> int \<Rightarrow> nat \<Rightarrow> nat \<Rightarrow> cell option list \<Rightarrow> int \<Rightarrow> cell option list \<times> int"
where
  "fill_row off tdays currentDayOfYear r c rowData dayCount =
     (if c < cols then
        (let idx = r * cols + c in
         if idx < off \<or> dayCount > tdays then
           fill_row off tdays currentDayOfYear r (c + 1) (rowData @ [None]) dayCount
         else
           (let st = (if dayCount < currentDayOfYear then Past
                      else if dayCount = currentDayOfYear then Today
                      else Future)
            in fill_row off tdays currentDayOfYear r (c + 1)
                 (rowData @ [Some \<lparr>day = dayCount, status = st\<rparr>]) (dayCount + 1)))
      else (rowData, dayCount))"
  by pat_completeness auto
termination
  by (relation "measure (\<lambda>(off, tdays, cur, r, c, rowData, dayCount). cols - c)") auto

text \<open>The outer loop \<open>for (let r = 0; r < rows; r++)\<close>.\<close>

function fill_rows ::
  "nat \<Rightarrow> nat \<Rightarrow> int \<Rightarrow> int \<Rightarrow> nat \<Rightarrow> grid \<Rightarrow> int \<Rightarrow> grid"
where
  "fill_rows rows off tdays currentDayOfYear r g dayCount =
     (if r < rows then
        (case fill_row off tdays currentDayOfYear r 0 [] dayCount of
           (rowData, dayCount') \<Rightarrow>
             fill_rows rows off tdays currentDayOfYear (r + 1) (g @ [rowData]) dayCount')
      else g)"
  by pat_completeness auto
termination
  by (relation "measure (\<lambda>(rows, off, tdays, cur, r, g, dayCount). rows - r)") auto

declare fill_row.simps [simp del] fill_rows.simps [simp del]

text \<open>
  \<open>rows = Math.ceil(totalCells / this.cols)\<close>. When the date is invalid, \<open>offset\<close>,
  \<open>totalCells\<close> and \<open>rows\<close> are \<open>NaN\<close>, the test \<open>r < rows\<close> fails at once and the
  grid stays empty. \<open>buildGrid\<close> ends with \<open>this.resize()\<close>.
\<close>

definition rowCount :: "nat \<Rightarrow> int \<Rightarrow> nat" where
  "rowCount off tdays = nat \<lceil>(real off + real_of_int tdays) / real cols\<rceil>"

definition buildGrid :: "renderer \<Rightarrow> int \<Rightarrow> int \<Rightarrow> renderer" where
  "buildGrid rd year currentDayOfYear =
     (case offset year of
        None \<Rightarrow> resize (rd\<lparr>grid := []\<rparr>)
      | Some off \<Rightarrow>
          resize (rd\<lparr>grid :=
            fill_rows (rowCount off (totalDays year)) off (totalDays year)
              currentDayOfYear 0 [] 1\<rparr>))"

subsection \<open>\<open>Renderer.draw\<close>\<close>


definition beginPath :: "context2d \<Rightarrow> context2d" where
  "beginPath c = c\<lparr>path := []\<rparr>"

text \<open>\<open>arc\<close> throws an \<open>IndexSizeError\<close> when the radius is negative.\<close>

definition arcTo ::
  "real \<Rightarrow> real \<Rightarrow> real \<Rightarrow> real \<Rightarrow> real \<Rightarrow> context2d \<Rightarrow> error + context2d"
where
  "arcTo x y rad a0 a1 c =
     (if rad < 0 then Inl IndexSizeError
      else Inr (c\<lparr>path := path c @
             [\<lparr>cx = x, cy = y, radius = rad, startAngle = a0, endAngle = a1\<rparr>]\<rparr>))"

definition fill :: "context2d \<Rightarrow> context2d" where
  "fill c =
     c\<lparr>painted := painted c @
         [Fill (path c) (fillStyle c) (globalAlpha c) (shadowBlur c) (shadowColor c)]\<rparr>"

text \<open>
  What \<open>draw\<close> takes from \<open>this.settings.state\<close>: \<open>dotSize\<close> as \<open>parseFloat\<close> reads
  it when that is a finite number, \<open>glowEnabled\<close> as the test \<open>if (glowEnabled)\<close> reads
  it, and the accent colour. Numbers are real numbers here, not doubles, and the
  arithmetic of \<open>draw\<close> is exact.
\<close>

record dot_settings =
  dotSize :: real
  glowEnabled :: bool
  accentColor :: string

text \<open>
  What a frame reads from the page: the two colours of the computed style and the handle
  \<open>requestAnimationFrame\<close> returns.
\<close>

record frame =
  pastColor :: string
  futureColor :: string
  handle :: nat

text \<open>The body of the inner \<open>forEach\<close> callback, for the cell of row \<open>r\<close>, column \<open>c\<close>.\<close>

definition draw_cell ::
  "dot_settings \<Rightarrow> frame \<Rightarrow> real \<Rightarrow> nat \<Rightarrow> nat \<Rightarrow> cell option \<Rightarrow> context2d
     \<Rightarrow> error + context2d"
where
  "draw_cell st fr elapsed r c cell_opt c0 =
     (case cell_opt of
        None \<Rightarrow> Inr c0
      | Some cl \<Rightarrow>
          let rad = dotSize st;
              gapX = real dotGapX;
              gapY = real dotGapY;
              halfX = gapX / 2;
              halfY = gapY / 2;
              x = halfX + real c * gapX;
              y = halfY + real r * gapY
          in (case arcTo x y rad 0 (pi * 2) (beginPath c0) of
                Inl e \<Rightarrow> Inl e
              | Inr c1 \<Rightarrow>
                  (case status cl of
                     Past \<Rightarrow> Inr (fill (c1\<lparr>fillStyle := pastColor fr\<rparr>))
                   | Future \<Rightarrow> Inr (fill (c1\<lparr>fillStyle := futureColor fr\<rparr>))
                   | Today \<Rightarrow>
                       (case (if glowEnabled st then
                                let pulse = 0.5 + 0.5 * sin (elapsed * 0.002);
                                    maxGlow = rad * 3;
                                    g1 = c1\<lparr>globalAlpha := 0.3 * pulse\<rparr>;
                                    g2 = g1\<lparr>fillStyle := accentColor st\<rparr>
                                in (case arcTo x y maxGlow 0 (pi * 2) (beginPath g2) of
                                      Inl e \<Rightarrow> Inl e
                                    | Inr g3 \<Rightarrow> Inr ((fill g3)\<lparr>globalAlpha := 1.0\<rparr>))
                              else Inr c1) of
                          Inl e \<Rightarrow> Inl e
                        | Inr c2 \<Rightarrow>
                            (case arcTo x y (rad + 1) 0 (pi * 2) (beginPath c2) of
                               Inl e \<Rightarrow> Inl e
                             | Inr c3 \<Rightarrow>
                                 let c4 = fill (c3\<lparr>fillStyle := accentColor st\<rparr>);
                                     c5 = fill (c4\<lparr>shadowBlur := 10,
                                                  shadowColor := accentColor st\<rparr>)
                                 in Inr (c5\<lparr>shadowBlur := 0\<rparr>))))))"




subsection \<open>JavaScript values and JSON\<close>

text \<open>
  The values a setting can hold. A number is \<open>NaN\<close>, an infinity, \<open>-0\<close> or finite;
  a finite number is given by its value, which is the value of a double (\<open>is_double\<close>),
  and \<open>Finite 0\<close> is \<open>+0\<close>. An object is the finite map of its own properties.
\<close>

datatype jsnum = NaN | Infinity | NegInfinity | NegZero | Finite real

definition is_double :: "real \<Rightarrow> bool" where
  "is_double x \<longleftrightarrow>
     (\<exists>m e. \<bar>m\<bar> < 2 ^ 53 \<and> - 1074 \<le> e \<and> e \<le> 971 \<and>
        x = real_of_int m * 2 powr real_of_int e)"

datatype jsval =
    Undefined
  | Null
  | Bool bool
  | Num jsnum
  | Str string
  | Arr "jsval list"
  | Obj "(string, jsval) fmap"

text \<open>The test \<open>v ? a : b\<close>.\<close>

fun truthy :: "jsval \<Rightarrow> bool" where
  "truthy Undefined = False"
| "truthy Null = False"
| "truthy (Bool b) = b"
| "truthy (Num n) = (n \<noteq> NaN \<and> n \<noteq> Finite 0 \<and> n \<noteq> NegZero)"
| "truthy (Str s) = (s \<noteq> [])"
| "truthy (Arr xs) = True"
| "truthy (Obj m) = True"

text \<open>
  \<open>json_value v\<close> is the value that \<open>JSON.parse\<close> reads from the text
  \<open>JSON.stringify(v)\<close>: a number that is not finite is written \<open>null\<close>, \<open>-0\<close> is written
  \<open>0\<close>, \<open>undefined\<close> inside an array is written \<open>null\<close>, and a property whose value is
  \<open>undefined\<close> is left out.
\<close>

primrec json_value :: "jsval \<Rightarrow> jsval" where
  "json_value Undefined = Null"
| "json_value Null = Null"
| "json_value (Bool b) = Bool b"
| "json_value (Num n) =
     (case n of Finite x \<Rightarrow> Num n | NegZero \<Rightarrow> Num (Finite 0) | _ \<Rightarrow> Null)"
| "json_value (Str s) = Str s"
| "json_value (Arr xs) = Arr (map json_value xs)"
| "json_value (Obj m) =
     Obj (fmfilter (\<lambda>k. fmlookup m k \<noteq> Some Undefined) (fmmap json_value m))"

text \<open>
  The values that \<open>JSON.stringify\<close> writes and \<open>JSON.parse\<close> reads back as they are:
  no \<open>undefined\<close>, no number that is not finite and no \<open>-0\<close>.
\<close>

primrec is_json :: "jsval \<Rightarrow> bool" where
  "is_json Undefined = False"
| "is_json Null = True"
| "is_json (Bool b) = True"
| "is_json (Num n) = (case n of Finite x \<Rightarrow> True | _ \<Rightarrow> False)"
| "is_json (Str s) = True"
| "is_json (Arr xs) = list_all is_json xs"
| "is_json (Obj m) = pred_fmap is_json m"

text \<open>
  The values that \<open>JSON.parse\<close> can return: it never builds \<open>undefined\<close> or \<open>NaN\<close>,
  its finite numbers are doubles, and it reads a number literal beyond the range of the
  doubles, such as \<open>1e400\<close>, as an infinity.
\<close>

primrec parse_result :: "jsval \<Rightarrow> bool" where
  "parse_result Undefined = False"
| "parse_result Null = True"
| "parse_result (Bool b) = True"
| "parse_result (Num n) = (case n of NaN \<Rightarrow> False | Finite x \<Rightarrow> is_double x | _ \<Rightarrow> True)"
| "parse_result (Str s) = True"
| "parse_result (Arr xs) = list_all parse_result xs"
| "parse_result (Obj m) = pred_fmap parse_result m"

text \<open>
  A string held by \<open>localStorage\<close>, as far as \<open>load\<close> can tell strings apart: the empty
  string, a string that is not a JSON text, or a JSON text. A JSON text is given by the
  value that \<open>JSON.parse\<close> returns for it, with its numbers already rounded to doubles:
  the text \<open>{"dotSize":1e400}\<close> is \<open>JSONText\<close> of the object whose \<open>dotSize\<close> is
  \<open>Infinity\<close>. A \<open>JSONText v\<close> stands for a text only when \<open>parse_result v\<close> holds.
\<close>

datatype dom_string = EmptyText | Malformed | JSONText jsval

definition JSON_parse :: "dom_string \<Rightarrow> error + jsval" where
  "JSON_parse t = (case t of JSONText v \<Rightarrow> Inr v | _ \<Rightarrow> Inl SyntaxError)"

text \<open>
  \<open>JSON.stringify\<close> of an object: the text it writes is the one that \<open>JSON.parse\<close>
  reads as \<open>json_value\<close> of the object (a finite double is written so that it reads back
  as itself).
\<close>

definition JSON_stringify :: "(string, jsval) fmap \<Rightarrow> dom_string" where
  "JSON_stringify m = JSONText (json_value (Obj m))"

text \<open>
  The own enumerable properties that a spread \<open>{ ...v }\<close> copies: those of an object,
  the elements of an array and the characters of a string under their indices, none of
  any other value.
\<close>

definition digit :: "nat \<Rightarrow> char" where
  "digit d = char_of (48 + d)"

fun decimal :: "nat \<Rightarrow> string" where
  "decimal n = (if n < 10 then [digit n] else decimal (n div 10) @ [digit (n mod 10)])"

declare decimal.simps [simp del]

definition indexed :: "jsval list \<Rightarrow> (string, jsval) fmap" where
  "indexed xs = fmap_of_list (zip (map decimal [0 ..< length xs]) xs)"

fun own_props :: "jsval \<Rightarrow> (string, jsval) fmap" where
  "own_props (Obj m) = m"
| "own_props (Arr xs) = indexed xs"
| "own_props (Str s) = indexed (map (\<lambda>ch. Str [ch]) s)"
| "own_props v = fmempty"

subsection \<open>\<open>Settings\<close>\<close>

text \<open>
  The part of the page that \<open>apply\<close> writes: the \<open>data-theme\<close> attribute and the
  \<open>--accent-color\<close> property of the root element (the values handed to the DOM), and
  whether the element \<open>clock-container\<close>, which the page is taken to have, carries the
  class \<open>hidden\<close>.
\<close>

record document =
  data_theme :: jsval
  accent_color :: jsval
  clock_hidden :: bool

text \<open>
  The prototype of the state object: \<open>Object.prototype\<close> for an object literal, until an
  assignment to \<open>__proto__\<close> replaces it by \<open>null\<close> or by an object or array.
\<close>

datatype proto = ObjectPrototype | NullPrototype | ValuePrototype jsval

text \<open>
  A \<open>Settings\<close> object with the two globals it works on; \<open>state\<close> holds the own
  properties of \<open>this.state\<close>, \<open>prototype\<close> its prototype.
\<close>

record settings =
  state :: "(string, jsval) fmap"
  prototype :: proto
  localStorage :: "string \<rightharpoonup> dom_string"
  document :: document

definition defaults :: "(string, jsval) fmap" where
  "defaults = fmap_of_list
     [(''theme'', Str ''dark''),
      (''accentColor'', Str ''#f28c38''),
      (''dotSize'', Num (Finite 3.5)),
      (''glowEnabled'', Bool True),
      (''showClock'', Bool True)]"

text \<open>
  \<open>load\<close>: \<open>getItem\<close> yields \<open>null\<close> for a missing key; \<open>null\<close> and the empty string
  are falsy; \<open>JSON.parse\<close> throws on anything that is not a JSON text.
\<close>

definition load :: "(string \<rightharpoonup> dom_string) \<Rightarrow> error + (string, jsval) fmap" where
  "load ls =
     (case ls ''memento_settings'' of
        None \<Rightarrow> Inr defaults
      | Some saved \<Rightarrow>
          if saved = EmptyText then Inr defaults
          else (case JSON_parse saved of
                  Inl e \<Rightarrow> Inl e
                | Inr v \<Rightarrow> Inr (defaults ++\<^sub>f own_props v)))"

text \<open>
  \<open>this.state[key]\<close>: an own property, else a property of the object or array that is the
  prototype, else \<open>undefined\<close>. The members of the built-in prototypes (\<open>toString\<close>,
  \<open>constructor\<close>, \<open>__proto__\<close>, the \<open>length\<close> of an array and the like) are not
  modelled: \<open>get\<close> is the code's for every other key.
\<close>

definition get :: "settings \<Rightarrow> string \<Rightarrow> jsval" where
  "get s key =
     (case fmlookup (state s) key of
        Some v \<Rightarrow> v
      | None \<Rightarrow>
          (case prototype s of
             ValuePrototype p \<Rightarrow>
               (case fmlookup (own_props p) key of Some v \<Rightarrow> v | None \<Rightarrow> Undefined)
           | _ \<Rightarrow> Undefined))"

definition applySettings :: "settings \<Rightarrow> settings" where
  "applySettings s =
     s\<lparr>document := (document s)\<lparr>
          data_theme := get s ''theme'',
          accent_color := get s ''accentColor'',
          clock_hidden := \<not> truthy (get s ''showClock'')\<rparr>\<rparr>"

definition save :: "settings \<Rightarrow> settings" where
  "save s =
     applySettings
       (s\<lparr>localStorage := (localStorage s)(''memento_settings'' \<mapsto> JSON_stringify (state s))\<rparr>)"

definition reset :: "settings \<Rightarrow> settings" where
  "reset s = save (s\<lparr>state := defaults, prototype := ObjectPrototype\<rparr>)"

text \<open>
  The assignment \<open>this.state[key] = value\<close>. It sets an own property, except when the
  key is \<open>__proto__\<close> and the lookup of that name reaches the accessor of
  \<open>Object.prototype\<close>, that is, when neither the state nor an object that is its
  prototype has an own property of that name and the prototype is not \<open>null\<close>. The
  accessor makes an object, an array or \<open>null\<close> the new prototype, ignores any other
  value, and creates no property.
\<close>

definition reaches_proto_setter :: "settings \<Rightarrow> bool" where
  "reaches_proto_setter s \<longleftrightarrow>
     ''__proto__'' |\<notin>| fmdom (state s) \<and>
     (case prototype s of
        ObjectPrototype \<Rightarrow> True
      | NullPrototype \<Rightarrow> False
      | ValuePrototype p \<Rightarrow> ''__proto__'' |\<notin>| fmdom (own_props p))"

definition assign :: "string \<Rightarrow> jsval \<Rightarrow> settings \<Rightarrow> settings" where
  "assign key v s =
     (if key = ''__proto__'' \<and> reaches_proto_setter s then
        (case v of
           Obj m \<Rightarrow> s\<lparr>prototype := ValuePrototype v\<rparr>
         | Arr xs \<Rightarrow> s\<lparr>prototype := ValuePrototype v\<rparr>
         | Null \<Rightarrow> s\<lparr>prototype := NullPrototype\<rparr>
         | _ \<Rightarrow> s)
      else s\<lparr>state := fmupd key v (state s)\<rparr>)"

definition update :: "string \<Rightarrow> jsval \<Rightarrow> settings \<Rightarrow> settings" where
  "update key v s = save (assign key v s)"

text \<open>The constructor: \<open>this.state = this.load(); this.apply()\<close>.\<close>

definition new_Settings :: "(string \<rightharpoonup> dom_string) \<Rightarrow> document \<Rightarrow> error + settings" where
  "new_Settings ls doc =
     (case load ls of
        Inl e \<Rightarrow> Inl e
      | Inr st \<Rightarrow>
          Inr (applySettings
                 \<lparr>state = st, prototype = ObjectPrototype, localStorage = ls, document = doc\<rparr>))"

subsection \<open>The controls of \<open>App.initUI\<close>\<close>

text \<open>
  What a listener reads from its input element: \<open>el.checked\<close> of a checkbox,
  \<open>e.target.value\<close> of any other input.
\<close>

datatype input = Checkbox bool | TextInput string

text \<open>The listener that \<open>bind(id, key, event, transform)\<close> installs.\<close>

definition bind_listener :: "string \<Rightarrow> (jsval \<Rightarrow> jsval) \<Rightarrow> input \<Rightarrow> settings \<Rightarrow> settings" where
  "bind_listener key transform_fn el s =
     (let val = (case el of Checkbox checked \<Rightarrow> Bool checked
                           | TextInput v \<Rightarrow> transform_fn (Str v))
      in applySettings (update key val s))"

text \<open>
  The second listener of the theme toggle, which reads \<open>e.target.checked\<close>
  (\<open>undefined\<close> on an input that is not a checkbox).
\<close>

definition theme_listener :: "input \<Rightarrow> settings \<Rightarrow> settings" where
  "theme_listener el s =
     (let checked = (case el of Checkbox b \<Rightarrow> Bool b | TextInput v \<Rightarrow> Undefined)
      in applySettings
           (update ''theme'' (if truthy checked then Str ''light'' else Str ''dark'') s))"

datatype ui_event =
    ThemeToggle input
  | AccentColor input
  | DotSize input
  | GlowToggle input
  | ClockToggle input
  | ResetClick

text \<open>An event runs the listeners of its control in the order they were added.\<close>

fun dispatch :: "ui_event \<Rightarrow> settings \<Rightarrow> settings" where
  "dispatch (ThemeToggle el) s =
     theme_listener el
       (bind_listener ''theme'' (\<lambda>v. if truthy v then Str ''light'' else Str ''dark'') el s)"
| "dispatch (AccentColor el) s = bind_listener ''accentColor'' (\<lambda>v. v) el s"
| "dispatch (DotSize el) s = bind_listener ''dotSize'' (\<lambda>v. v) el s"
| "dispatch (GlowToggle el) s = bind_listener ''glowEnabled'' (\<lambda>v. v) el s"
| "dispatch (ClockToggle el) s = bind_listener ''showClock'' (\<lambda>v. v) el s"
| "dispatch ResetClick s = reset s"

text \<open>
  The settings states the running page can reach: the constructor, on any storage it can
  find, then any sequence of control events.
\<close>

inductive reachable :: "settings \<Rightarrow> bool" where
  start: "\<lbrakk>\<forall>v. ls ''memento_settings'' = Some (JSONText v) \<longrightarrow> parse_result v;
           new_Settings ls doc = Inr s\<rbrakk> \<Longrightarrow> reachable s"
| event: "reachable s \<Longrightarrow> reachable (dispatch e s)"

section \<open>Notions used to state the properties\<close>

subsection \<open>Grids\<close>

text \<open>
  The value of \<open>dayCount\<close> when the loops reach the cell of index \<open>idx\<close>, the status the
  code gives day \<open>n\<close>, and the cell it pushes at index \<open>idx\<close>.
\<close>

definition dayCount_at :: "nat \<Rightarrow> int \<Rightarrow> nat \<Rightarrow> int" where
  "dayCount_at off tdays idx = 1 + min tdays (max 0 (int idx - int off))"

definition status_of :: "int \<Rightarrow> int \<Rightarrow> status" where
  "status_of cur n = (if n < cur then Past else if n = cur then Today else Future)"

definition dayCell :: "int \<Rightarrow> int \<Rightarrow> cell" where
  "dayCell cur n = \<lparr>day = n, status = status_of cur n\<rparr>"

definition cell_at :: "nat \<Rightarrow> int \<Rightarrow> int \<Rightarrow> nat \<Rightarrow> cell option" where
  "cell_at off tdays cur idx =
     (if idx < off \<or> tdays \<le> int idx - int off then None
      else Some (dayCell cur (int idx - int off + 1)))"

text \<open>The non-empty cells of a grid in row-major order, and the number of empty cells.\<close>

definition dayCells :: "grid \<Rightarrow> cell list" where
  "dayCells g = map the (filter (\<lambda>x. x \<noteq> None) (concat g))"

definition emptyCount :: "cell option list \<Rightarrow> nat" where
  "emptyCount cs = length (filter (\<lambda>x. x = None) cs)"

text \<open>
  A year is valid when the platform has a date for its first day: the years from
  -271820 to 275760.
\<close>

definition validYear :: "int \<Rightarrow> bool" where
  "validYear Y \<longleftrightarrow> new_Date_Jan1 Y \<noteq> None"

text \<open>
  The weekday of 1 January of year \<open>Y\<close> in the proleptic Gregorian calendar, counted
  from Monday = 0 (day 0 of the time scale, 1 January 1970, was a Thursday).
\<close>

definition mondayWeekday_Jan1 :: "int \<Rightarrow> nat" where
  "mondayWeekday_Jan1 Y = nat ((DayFromYear Y + 3) mod 7)"

subsection \<open>Settings\<close>

text \<open>
  A state all of whose values are JSON values, and a state that has every key of the
  defaults.
\<close>

definition json_state :: "(string, jsval) fmap \<Rightarrow> bool" where
  "json_state m \<longleftrightarrow> fmpred (\<lambda>k v. is_json v) m"

definition has_defaults :: "(string, jsval) fmap \<Rightarrow> bool" where
  "has_defaults m \<longleftrightarrow> fmdom defaults |\<subseteq>| fmdom m"

text \<open>The page before \<open>apply\<close> has run: no theme attribute, no accent colour, clock shown.\<close>

definition blank_document :: document where
  "blank_document = \<lparr>data_theme = Null, accent_color = Null, clock_hidden = False\<rparr>"

text \<open>The settings that the constructor builds when the storage is empty.\<close>

definition fresh_settings :: settings where
  "fresh_settings =
     applySettings
       \<lparr>state = defaults, prototype = ObjectPrototype, localStorage = Map.empty,
        document = blank_document\<rparr>"

text \<open>
  A storage whose item is the text \<open>{"dotSize":1e400}\<close>, and the settings that the
  constructor builds from it.
\<close>

definition overflow_storage :: "string \<rightharpoonup> dom_string" where
  "overflow_storage =
     [''memento_settings'' \<mapsto> JSONText (Obj (fmupd ''dotSize'' (Num Infinity) fmempty))]"

definition overflow_settings :: settings where
  "overflow_settings =
     applySettings
       \<lparr>state = fmupd ''dotSize'' (Num Infinity) defaults, prototype = ObjectPrototype,
        localStorage = overflow_storage, document = blank_document\<rparr>"

subsection \<open>Frames\<close>












section \<open>The grid that \<open>buildGrid\<close> builds\<close>

lemma fill_row_step:
  "c < cols \<Longrightarrow>
     fill_row off tdays cur r c rowData dc =
       fill_row off tdays cur r (c + 1)
         (rowData @ [if r * cols + c < off \<or> dc > tdays then None
                     else Some (dayCell cur dc)])
         (if r * cols + c < off \<or> dc > tdays then dc else dc + 1)"
  by (subst fill_row.simps) (simp add: Let_def status_of_def dayCell_def)

lemma fill_row_stop: "\<not> c < cols \<Longrightarrow> fill_row off tdays cur r c rowData dc = (rowData, dc)"
  by (subst fill_row.simps) simp

lemma cell_at_step:
  assumes "0 \<le> tdays"
  shows "(if i < off \<or> dayCount_at off tdays i > tdays then None
          else Some (dayCell cur (dayCount_at off tdays i)))
           = cell_at off tdays cur i"
    and "(if i < off \<or> dayCount_at off tdays i > tdays then dayCount_at off tdays i
          else dayCount_at off tdays i + 1) = dayCount_at off tdays (i + 1)"
  using assms unfolding cell_at_def dayCount_at_def
  by (cases "i < off"; auto simp: algebra_simps)+

lemma fill_row_eq:
  assumes "0 \<le> tdays" "c \<le> cols"
  shows "fill_row off tdays cur r c rowData (dayCount_at off tdays (r * cols + c)) =
           (rowData @ map (cell_at off tdays cur) [r * cols + c ..< r * cols + cols],
            dayCount_at off tdays (r * cols + cols))"
  using assms
proof (induction "cols - c" arbitrary: c rowData)
  case 0
  then have "c = cols" by simp
  then show ?case by (simp add: fill_row_stop)
next
  case (Suc n)
  then have c: "c < cols" and n: "n = cols - (c + 1)" and le: "c + 1 \<le> cols" by simp_all
  define i where "i = r * cols + c"
  have range: "[i ..< r * cols + cols] = i # [i + 1 ..< r * cols + cols]"
    using c by (simp add: upt_conv_Cons i_def)
  have i1: "r * cols + (c + 1) = i + 1" by (simp add: i_def)
  note IH = Suc.hyps(1)[OF n Suc.prems(1) le, unfolded i1]
  have "fill_row off tdays cur r c rowData (dayCount_at off tdays i) =
        fill_row off tdays cur r (c + 1) (rowData @ [cell_at off tdays cur i])
          (dayCount_at off tdays (i + 1))"
    using fill_row_step[OF c, of off tdays cur r rowData "dayCount_at off tdays i"]
          cell_at_step(1)[OF Suc.prems(1), of i off cur] cell_at_step(2)[OF Suc.prems(1), of i off]
    by (simp only: i_def)
  also have "\<dots> = (rowData @ map (cell_at off tdays cur) [i ..< r * cols + cols],
                    dayCount_at off tdays (r * cols + cols))"
    by (simp only: IH range) simp
  finally show ?case by (simp only: i_def)
qed

lemma fill_rows_eq:
  assumes "0 \<le> tdays" "r \<le> rows"
  shows "fill_rows rows off tdays cur r g (dayCount_at off tdays (r * cols)) =
           g @ map (\<lambda>r. map (cell_at off tdays cur) [r * cols ..< r * cols + cols]) [r ..< rows]"
  using assms
proof (induction "rows - r" arbitrary: r g)
  case 0
  then show ?case by (subst fill_rows.simps) simp
next
  case (Suc n)
  then have r: "r < rows" and n: "n = rows - (r + 1)" and le: "r + 1 \<le> rows" by simp_all
  have row: "fill_row off tdays cur r 0 [] (dayCount_at off tdays (r * cols)) =
      (map (cell_at off tdays cur) [r * cols ..< r * cols + cols], dayCount_at off tdays ((r + 1) * cols))"
    using fill_row_eq[OF Suc.prems(1), of 0 off cur r "[]"] by (simp add: algebra_simps)
  show ?case
    using r Suc.hyps(1)[OF n Suc.prems(1) le] row
    by (subst fill_rows.simps) (simp add: upt_conv_Cons)
qed

lemma grid_resize: "grid (resize rd) = grid rd"
  by (simp add: resize_def Let_def)

lemma totalDays_cases: "totalDays Y = 365 \<or> totalDays Y = 366"
  by (simp add: totalDays_def)

lemma grid_buildGrid_invalid: "offset Y = None \<Longrightarrow> grid (buildGrid rd Y d) = []"
  by (simp add: buildGrid_def grid_resize)

lemma grid_buildGrid:
  assumes "offset Y = Some off"
  shows "grid (buildGrid rd Y d) =
           map (\<lambda>r. map (cell_at off (totalDays Y) d) [r * cols ..< r * cols + cols])
             [0 ..< rowCount off (totalDays Y)]"
proof -
  have td: "0 \<le> totalDays Y" using totalDays_cases[of Y] by auto
  have one: "dayCount_at off (totalDays Y) 0 = 1"
    using td by (simp add: dayCount_at_def)
  show ?thesis
    using fill_rows_eq[OF td, of 0 "rowCount off (totalDays Y)" off d "[]"] assms
    by (simp add: buildGrid_def grid_resize one)
qed

lemma upt_rows_Suc: "[0 ..< Suc m * n] = [0 ..< m * n] @ [m * n ..< m * n + n]"
proof -
  have "Suc m * n = m * n + n" by simp
  then show ?thesis by (simp only: upt_add_eq_append[OF le0])
qed

lemma concat_rows:
  "concat (map (\<lambda>r. map f [r * n ..< r * n + n]) [0 ..< m]) = map f [0 ..< m * n]"
proof (induction m)
  case 0
  show ?case by simp
next
  case (Suc m)
  have "concat (map (\<lambda>r. map f [r * n ..< r * n + n]) [0 ..< Suc m]) =
      concat (map (\<lambda>r. map f [r * n ..< r * n + n]) [0 ..< m]) @ map f [m * n ..< m * n + n]"
    by simp
  then show ?case by (simp only: Suc.IH upt_rows_Suc map_append)
qed

lemma offset_lt_7: "offset Y = Some off \<Longrightarrow> off < 7"
  by (auto simp: offset_def startDay_def getDay_def smod_int_alt_def split: option.splits)

lemma rowCount_bounds:
  assumes "0 \<le> tdays"
  shows "off + nat tdays \<le> rowCount off tdays * cols" and "rowCount off tdays * cols < off + nat tdays + cols"
proof -
  have eq: "(real off + real_of_int tdays) / real cols = real_of_int (int off + tdays) / real_of_int 7"
    by (simp add: cols_def)
  have rc: "int (rowCount off tdays) = - (- (int off + tdays) div 7)"
    using assms unfolding rowCount_def eq ceiling_divide_eq_div by simp
  show "off + nat tdays \<le> rowCount off tdays * cols"
    using rc assms by (simp add: cols_def; linarith?)
  show "rowCount off tdays * cols < off + nat tdays + cols"
    using rc assms by (simp add: cols_def; linarith?)
qed

lemma map_upt_shift:
  "map (\<lambda>i. f (int i - int off + 1)) [off ..< off + n] = map f [1 .. int n]"
proof (rule nth_equalityI)
  show "length (map (\<lambda>i. f (int i - int off + 1)) [off..<off + n]) = length (map f [1..int n])"
    by simp
next
  fix i assume "i < length (map (\<lambda>i. f (int i - int off + 1)) [off..<off + n])"
  then have i: "i < n" by simp
  then show "map (\<lambda>i. f (int i - int off + 1)) [off..<off + n] ! i = map f [1..int n] ! i"
    by (simp add: algebra_simps)
qed

lemma map_cell_at_flat_nat:
  assumes "off + n \<le> m"
  shows "map (cell_at off (int n) cur) [0 ..< m] =
           replicate off None @ map (\<lambda>k. Some (dayCell cur k)) [1 .. int n]
             @ replicate (m - off - n) None"
proof -
  have s1: "[0 ..< m] = [0 ..< off + n] @ [off + n ..< m]"
    using assms upt_add_eq_append[of 0 "off + n" "m - (off + n)"] by simp
  have s2: "[0 ..< off + n] = [0 ..< off] @ [off ..< off + n]"
    by (rule upt_add_eq_append) simp
  have a: "map (cell_at off (int n) cur) [0 ..< off] = replicate off None"
    by (rule nth_equalityI) (simp_all add: cell_at_def)
  have b: "map (cell_at off (int n) cur) [off ..< off + n] =
             map (\<lambda>i. Some (dayCell cur (int i - int off + 1))) [off ..< off + n]"
    by (rule map_cong) (auto simp: cell_at_def)
  have c: "map (cell_at off (int n) cur) [off + n ..< m] = replicate (m - off - n) None"
    by (rule nth_equalityI) (simp_all add: cell_at_def)
  show ?thesis
    unfolding s1 s2 map_append a b c
    using map_upt_shift[of "\<lambda>k. Some (dayCell cur k)" off n]
    by simp
qed

lemma map_cell_at_flat:
  assumes "0 \<le> tdays" "off + nat tdays \<le> m"
  shows "map (cell_at off tdays cur) [0 ..< m] =
           replicate off None @ map (\<lambda>n. Some (dayCell cur n)) [1 .. tdays]
             @ replicate (m - off - nat tdays) None"
  using map_cell_at_flat_nat[OF assms(2), of cur] assms(1) by simp

lemma cells_buildGrid:
  assumes "offset Y = Some off"
  shows "concat (grid (buildGrid rd Y d)) =
           replicate off None @ map (\<lambda>n. Some (dayCell d n)) [1 .. totalDays Y]
             @ replicate (rowCount off (totalDays Y) * cols - off - nat (totalDays Y)) None"
proof -
  have td: "0 \<le> totalDays Y" using totalDays_cases[of Y] by auto
  show ?thesis
    unfolding grid_buildGrid[OF assms] concat_rows
    by (rule map_cell_at_flat[OF td rowCount_bounds(1)[OF td]])
qed

lemma dayCells_flat:
  "concat g = replicate a None @ map (\<lambda>n. Some (f n)) ns @ replicate b None \<Longrightarrow>
     dayCells g = map f ns"
  by (simp add: dayCells_def filter_map comp_def)

lemma dayCells_buildGrid:
  assumes "offset Y = Some off"
  shows "dayCells (grid (buildGrid rd Y d)) = map (dayCell d) [1 .. totalDays Y]"
  by (rule dayCells_flat[OF cells_buildGrid[OF assms]])

lemma dayCells_invalid: "offset Y = None \<Longrightarrow> dayCells (grid (buildGrid rd Y d)) = []"
  by (simp add: grid_buildGrid_invalid dayCells_def)

lemma validYear_offset: "validYear Y \<Longrightarrow> \<exists>off. offset Y = Some off"
  by (auto simp: validYear_def offset_def startDay_def getDay_def split: option.splits)

lemma smod_eq_0_iff_dvd: "(a::int) smod b = 0 \<longleftrightarrow> b dvd a"
  by (auto simp: smod_int_alt_def mod_eq_0_iff_dvd sgn_if split: if_splits)

lemma isLeap_dvd: "isLeap Y \<longleftrightarrow> (4 dvd Y \<and> \<not> 100 dvd Y) \<or> 400 dvd Y"
  by (simp add: isLeap_def smod_eq_0_iff_dvd)

section \<open>Properties of \<open>buildGrid\<close>\<close>

lemmas date_defs = validYear_def new_Date_Jan1_def TimeClip_def MakeDay_Jan1_def
  DayFromYear_def msPerDay_def startDay_def getDay_def offset_def

lemma new_Date_Jan1_Some:
  assumes "new_Date_Jan1 Y = Some t"
  shows "t div msPerDay = DayFromYear (if 0 \<le> Y \<and> Y \<le> 99 then 1900 + Y else Y)"
proof -
  have "t = DayFromYear (if 0 \<le> Y \<and> Y \<le> 99 then 1900 + Y else Y) * msPerDay"
    using assms unfolding new_Date_Jan1_def TimeClip_def MakeDay_Jan1_def Let_def
    by (auto split: if_splits)
  then show ?thesis by (simp add: msPerDay_def)
qed

lemma validYear_startDay:
  assumes "validYear Y"
  shows "startDay Y = Some ((DayFromYear (if 0 \<le> Y \<and> Y \<le> 99 then 1900 + Y else Y) + 4) mod 7)"
proof -
  obtain t where t: "new_Date_Jan1 Y = Some t"
    using assms unfolding validYear_def by blast
  show ?thesis
    unfolding startDay_def getDay_def t using new_Date_Jan1_Some[OF t] by simp
qed

lemma startDay_range: "startDay Y = Some sd \<Longrightarrow> 0 \<le> sd \<and> sd \<le> 6"
proof -
  assume "startDay Y = Some sd"
  then obtain t where "sd = (t div msPerDay + 4) mod 7"
    unfolding startDay_def getDay_def by (cases "new_Date_Jan1 Y") auto
  then show ?thesis by simp
qed

lemma offset_startDay:
  assumes "startDay Y = Some sd"
  shows "offset Y = Some (nat ((sd + 6) mod 7))"
proof -
  have "0 \<le> sd + 6" using startDay_range[OF assms] by simp
  then have "(sd + 6) smod 7 = (sd + 6) mod 7"
    by (simp add: smod_int_alt_def sgn_if)
  then show ?thesis by (simp add: offset_def assms)
qed

lemma offset_monday:
  assumes "validYear Y" and "Y < 0 \<or> 99 < Y"
  shows "offset Y = Some (mondayWeekday_Jan1 Y)"
proof -
  have sd: "startDay Y = Some ((DayFromYear Y + 4) mod 7)"
    using validYear_startDay[OF assms(1)] assms(2) by auto
  have "((DayFromYear Y + 4) mod 7 + 6) mod 7 = (DayFromYear Y + 3 + 7) mod 7"
    by (simp add: mod_simps)
  also have "\<dots> = (DayFromYear Y + 3) mod 7"
    by (rule mod_add_self2)
  finally show ?thesis
    using offset_startDay[OF sd] by (simp add: mondayWeekday_Jan1_def)
qed

lemma length_grid: "offset Y = Some off \<Longrightarrow> length (grid (buildGrid rd Y d)) = rowCount off (totalDays Y)"
  by (simp add: grid_buildGrid)

lemma nth_grid:
  assumes "offset Y = Some off" "r < rowCount off (totalDays Y)" "c < 7"
  shows "grid (buildGrid rd Y d) ! r ! c = cell_at off (totalDays Y) d (r * 7 + c)"
  using assms by (simp add: grid_buildGrid cols_def)

lemma rows_ge_2: "2 \<le> rowCount off (totalDays Y)"
proof -
  have td: "0 \<le> totalDays Y" using totalDays_cases[of Y] by auto
  show ?thesis
    using rowCount_bounds(1)[OF td, of off] totalDays_cases[of Y] by (auto simp: cols_def)
qed

lemma emptyCount_first_row:
  assumes "offset Y = Some off"
  shows "emptyCount (grid (buildGrid rd Y d) ! 0) = off"
proof -
  have lt: "off < 7" by (rule offset_lt_7[OF assms])
  have row0: "grid (buildGrid rd Y d) ! 0 = map (cell_at off (totalDays Y) d) [0 ..< 7]"
    using rows_ge_2[of off Y] by (simp add: grid_buildGrid[OF assms] cols_def)
  have split: "[0 ..< 7] = [0 ..< off] @ [off ..< 7]"
    using lt upt_add_eq_append[of 0 off "7 - off"] by simp
  have a: "filter (\<lambda>x. x = None) (map (cell_at off (totalDays Y) d) [0 ..< off]) =
           map (cell_at off (totalDays Y) d) [0 ..< off]"
    by (auto simp: filter_id_conv cell_at_def)
  have b: "filter (\<lambda>x. x = None) (map (cell_at off (totalDays Y) d) [off ..< 7]) = []"
    using totalDays_cases[of Y] by (auto simp: filter_empty_conv cell_at_def)
  show ?thesis
    unfolding emptyCount_def row0 split map_append filter_append a b by simp
qed

lemma empty_cell_iff:
  assumes off: "offset Y = Some off" and r: "r < length (grid (buildGrid rd Y d))" and c: "c < 7"
  shows "grid (buildGrid rd Y d) ! r ! c = None \<longleftrightarrow>
           (r = 0 \<and> c < off) \<or>
           (r = length (grid (buildGrid rd Y d)) - 1 \<and> int off + totalDays Y \<le> int (r * 7 + c))"
proof -
  have td: "0 \<le> totalDays Y" using totalDays_cases[of Y] by auto
  have lt: "off < 7" by (rule offset_lt_7[OF off])
  have len: "length (grid (buildGrid rd Y d)) = rowCount off (totalDays Y)"
    by (rule length_grid[OF off])
  have r': "r < rowCount off (totalDays Y)" using r len by simp
  have up: "rowCount off (totalDays Y) * 7 < off + nat (totalDays Y) + 7"
    using rowCount_bounds(2)[OF td, of off] by (simp add: cols_def)
  show ?thesis
    unfolding nth_grid[OF off r' c] len cell_at_def
    using lt c r' up td by auto
qed


text \<open>
  Claim C1. For every valid year \<open>Y\<close> and every current day, the grid of
  \<open>buildGrid(Y, d)\<close> has exactly 366 non-empty cells when \<open>Y\<close> is a leap year and 365
  otherwise; \<open>Y\<close> is a leap year iff it is divisible by 4 and not by 100, or divisible by
  400; 2000 and 2024 are leap years, 1900 and 2023 are not.
\<close>

theorem buildGrid_day_count:
  assumes "validYear Y"
  shows "length (dayCells (grid (buildGrid rd Y d))) = (if isLeap Y then 366 else 365)
       \<and> (isLeap Y \<longleftrightarrow> (4 dvd Y \<and> \<not> 100 dvd Y) \<or> 400 dvd Y)
       \<and> isLeap 2000 \<and> isLeap 2024 \<and> \<not> isLeap 1900 \<and> \<not> isLeap 2023"
proof -
  obtain off where off: "offset Y = Some off"
    using validYear_offset[OF assms] by blast
  have "length (dayCells (grid (buildGrid rd Y d))) = (if isLeap Y then 366 else 365)"
    unfolding dayCells_buildGrid[OF off] by (simp add: totalDays_def)
  moreover have "isLeap 2000 \<and> isLeap 2024 \<and> \<not> isLeap 1900 \<and> \<not> isLeap 2023"
    by (simp add: isLeap_dvd)
  ultimately show ?thesis using isLeap_dvd[of Y] by blast
qed

theorem buildGrid_day_count_witness:
  "validYear 2023 \<and>
   length (dayCells (grid (buildGrid (new_Renderer blank_canvas blank_context 1 0) 2023 60))) = 365"
  using buildGrid_day_count[of 2023 "new_Renderer blank_canvas blank_context 1 0" 60]
  by (simp add: date_defs isLeap_dvd)

text \<open>
  Claim C2. For every valid year \<open>Y\<close> and every \<open>d\<close> from 1 to \<open>totalDays\<close>, exactly one
  non-empty cell of the grid has status \<open>today\<close>, it is the cell of day \<open>d\<close>, the cells of
  earlier days are \<open>past\<close> and those of later days \<open>future\<close>; the day cells carry the
  numbers 1 to \<open>totalDays\<close> in row-major order and follow the first \<open>offset\<close> cells, which
  are empty.
\<close>

theorem buildGrid_statuses:
  assumes "validYear Y" and "1 \<le> d" and "d \<le> totalDays Y"
  shows "length (filter (\<lambda>cl. status cl = Today) (dayCells (grid (buildGrid rd Y d)))) = 1
       \<and> (\<forall>cl \<in> set (dayCells (grid (buildGrid rd Y d))).
            (status cl = Today \<longleftrightarrow> day cl = d) \<and>
            (day cl < d \<longrightarrow> status cl = Past) \<and>
            (day cl > d \<longrightarrow> status cl = Future))
       \<and> map day (dayCells (grid (buildGrid rd Y d))) = [1 .. totalDays Y]
       \<and> (\<exists>off k. offset Y = Some off \<and>
            concat (grid (buildGrid rd Y d)) =
              replicate off None @ map Some (dayCells (grid (buildGrid rd Y d))) @ replicate k None)"
proof -
  obtain off where off: "offset Y = Some off"
    using validYear_offset[OF assms(1)] by blast
  let ?g = "grid (buildGrid rd Y d)"
  have dc: "dayCells ?g = map (dayCell d) [1 .. totalDays Y]"
    by (rule dayCells_buildGrid[OF off])
  have today: "filter (\<lambda>cl. status cl = Today) (map (dayCell d) [1 .. totalDays Y]) = [dayCell d d]"
  proof -
    have split: "[1 .. totalDays Y] = [1 .. d - 1] @ d # [d + 1 .. totalDays Y]"
      by (rule upto_split3[OF assms(2,3)])
    show ?thesis
      unfolding split by (auto simp: filter_empty_conv dayCell_def status_of_def)
  qed
  have one: "length (filter (\<lambda>cl. status cl = Today) (dayCells ?g)) = 1"
    unfolding dc today by simp
  have st: "\<forall>cl \<in> set (dayCells ?g).
            (status cl = Today \<longleftrightarrow> day cl = d) \<and>
            (day cl < d \<longrightarrow> status cl = Past) \<and>
            (day cl > d \<longrightarrow> status cl = Future)"
    unfolding dc by (auto simp: dayCell_def status_of_def)
  have days: "map day (dayCells ?g) = [1 .. totalDays Y]"
    unfolding dc by (simp add: comp_def dayCell_def)
  have flat: "concat ?g = replicate off None @ map Some (dayCells ?g)
       @ replicate (rowCount off (totalDays Y) * cols - off - nat (totalDays Y)) None"
    unfolding dc using cells_buildGrid[OF off, of rd d] by (simp add: comp_def)
  show ?thesis using one st days off flat by blast
qed

theorem buildGrid_statuses_witness:
  "validYear 2024 \<and> (1::int) \<le> 60 \<and> 60 \<le> totalDays 2024 \<and>
   map day (dayCells (grid (buildGrid (new_Renderer blank_canvas blank_context 1 0) 2024 60))) = [1 .. 366]"
  using buildGrid_statuses[of 2024 60 "new_Renderer blank_canvas blank_context 1 0"]
  by (simp add: date_defs totalDays_def isLeap_dvd)

text \<open>
  Against claim C3 as it is worded: the grid of 2024, whose first day is a Monday, has five
  empty cells, all at the end of its last row.
\<close>

theorem buildGrid_padding_counterexample:
  "emptyCount (concat (grid (buildGrid (new_Renderer blank_canvas blank_context 1 0) 2024 1))) = 5
   \<and> grid (buildGrid (new_Renderer blank_canvas blank_context 1 0) 2024 1) ! 52 ! 6 = None"
proof -
  have off: "offset 2024 = Some 0" by (simp add: date_defs)
  have td: "totalDays 2024 = 366" by (simp add: totalDays_def isLeap_dvd)
  have rc: "rowCount 0 366 = 53" by (simp add: rowCount_def cols_def)
  have "emptyCount (concat (grid (buildGrid (new_Renderer blank_canvas blank_context 1 0) 2024 1))) = 5"
    unfolding cells_buildGrid[OF off] td rc emptyCount_def
    by (simp add: cols_def filter_empty_conv)
  moreover have "grid (buildGrid (new_Renderer blank_canvas blank_context 1 0) 2024 1) ! 52 ! 6 = None"
    using nth_grid[OF off, of 52 6] by (simp add: td rc cell_at_def)
  ultimately show ?thesis by simp
qed

text \<open>
  Claim C3, amended. For every valid year \<open>Y\<close> outside 0..99 the empty cells of the grid
  are the first \<open>k\<close> cells of the first row, where \<open>k\<close> is the weekday of 1 January of
  \<open>Y\<close> counted from Monday = 0, and the cells of the last row that come after the last day;
  \<open>k\<close> is 0 for 2024 and 2 for 2025.
\<close>

theorem buildGrid_padding:
  assumes "validYear Y" and "Y < 0 \<or> 99 < Y"
  shows "(\<forall>r c. r < length (grid (buildGrid rd Y d)) \<longrightarrow> c < 7 \<longrightarrow>
            (grid (buildGrid rd Y d) ! r ! c = None \<longleftrightarrow>
               (r = 0 \<and> c < mondayWeekday_Jan1 Y) \<or>
               (r = length (grid (buildGrid rd Y d)) - 1 \<and>
                int (mondayWeekday_Jan1 Y) + totalDays Y \<le> int (r * 7 + c))))
       \<and> emptyCount (grid (buildGrid rd Y d) ! 0) = mondayWeekday_Jan1 Y
       \<and> mondayWeekday_Jan1 2024 = 0 \<and> mondayWeekday_Jan1 2025 = 2"
proof -
  note off = offset_monday[OF assms]
  have "mondayWeekday_Jan1 2024 = 0 \<and> mondayWeekday_Jan1 2025 = 2"
    by (simp add: mondayWeekday_Jan1_def DayFromYear_def)
  then show ?thesis
    using empty_cell_iff[OF off, of _ rd d] emptyCount_first_row[OF off, of rd d] by blast
qed

theorem buildGrid_padding_witness:
  "validYear 2025 \<and> ((2025::int) < 0 \<or> 99 < (2025::int)) \<and>
   emptyCount (grid (buildGrid (new_Renderer blank_canvas blank_context 1 0) 2025 60) ! 0) = 2"
  using buildGrid_padding[of 2025 "new_Renderer blank_canvas blank_context 1 0" 60]
  by (simp add: date_defs mondayWeekday_Jan1_def)

text \<open>
  The shape of the grid for every valid year: with \<open>sd\<close> the weekday that
  \<open>new Date(Y, 0, 1).getDay()\<close> returns, the offset is \<open>(sd + 6) mod 7\<close>, every row has
  7 cells and the number of rows is the ceiling of \<open>(offset + totalDays) / 7\<close>.
\<close>

lemma buildGrid_row_shape:
  assumes "validYear Y"
  shows "\<exists>sd. startDay Y = Some sd \<and> 0 \<le> sd \<and> sd \<le> 6
           \<and> offset Y = Some (nat ((sd + 6) mod 7))
           \<and> (\<forall>row \<in> set (grid (buildGrid rd Y d)). length row = 7)
           \<and> int (length (grid (buildGrid rd Y d))) =
               \<lceil>(real_of_int ((sd + 6) mod 7) + real_of_int (totalDays Y)) / 7\<rceil>"
proof -
  obtain sd where sd: "startDay Y = Some sd"
    using assms by (auto simp: validYear_def startDay_def getDay_def split: option.splits)
  note rng = startDay_range[OF sd]
  note off = offset_startDay[OF sd]
  have rows: "\<forall>row \<in> set (grid (buildGrid rd Y d)). length row = 7"
    by (auto simp: grid_buildGrid[OF off] cols_def)
  have pos: "0 \<le> (real_of_int ((sd + 6) mod 7) + real_of_int (totalDays Y)) / 7"
    using totalDays_cases[of Y] by auto
  have "int (length (grid (buildGrid rd Y d))) =
          \<lceil>(real_of_int ((sd + 6) mod 7) + real_of_int (totalDays Y)) / 7\<rceil>"
    unfolding length_grid[OF off] rowCount_def using pos by (simp add: cols_def)
  then show ?thesis using sd rng off rows by blast
qed

text \<open>
  Claim C4 says that the offset of \<open>buildGrid(Y, d)\<close> is \<open>(w + 6) % 7\<close> for the weekday
  \<open>w\<close> (Sunday = 0) of 1 January of \<open>Y\<close>. At the valid year 50 this fails:
  \<open>new Date(50, 0, 1)\<close> is 1 January 1950, a Sunday, so \<open>getDay()\<close> returns 0 and the
  offset is 6, with 6 empty cells at the head of the first row, while 1 January of the year
  50 is a Saturday (weekday 6), for which the offset of the claim is 5.
\<close>

theorem buildGrid_offset_year_50:
  "validYear 50 \<and> startDay 50 = Some 0 \<and> offset 50 = Some 6
   \<and> (DayFromYear 50 + 4) mod 7 = 6 \<and> mondayWeekday_Jan1 50 = 5
   \<and> emptyCount (grid (buildGrid (new_Renderer blank_canvas blank_context 1 0) 50 1) ! 0) = 6"
proof -
  have off: "offset 50 = Some 6" by (simp add: date_defs)
  have "validYear 50 \<and> startDay 50 = Some 0 \<and> (DayFromYear 50 + 4) mod 7 = 6
        \<and> mondayWeekday_Jan1 50 = 5"
    by (simp add: date_defs mondayWeekday_Jan1_def)
  then show ?thesis
    using off emptyCount_first_row[OF off, of "new_Renderer blank_canvas blank_context 1 0" 1]
    by simp
qed

text \<open>
  Claim C10. For every year \<open>Y\<close> and every \<open>d\<close> below 1 or above \<open>totalDays\<close>, the grid of
  \<open>buildGrid(Y, d)\<close> has the rows, the empty cells and the day numbers it has for any other
  current day, no cell has status \<open>today\<close>, every day cell is \<open>past\<close> when \<open>d\<close> is above
  \<open>totalDays\<close> and \<open>future\<close> when \<open>d\<close> is below 1.
\<close>

theorem buildGrid_day_out_of_range:
  assumes "d < 1 \<or> totalDays Y < d"
  shows "(\<forall>d'. map (map (map_option day)) (grid (buildGrid rd Y d)) =
               map (map (map_option day)) (grid (buildGrid rd Y d')))
       \<and> (\<forall>cl \<in> set (dayCells (grid (buildGrid rd Y d))). status cl \<noteq> Today)
       \<and> (totalDays Y < d \<longrightarrow> (\<forall>cl \<in> set (dayCells (grid (buildGrid rd Y d))). status cl = Past))
       \<and> (d < 1 \<longrightarrow> (\<forall>cl \<in> set (dayCells (grid (buildGrid rd Y d))). status cl = Future))"
proof (cases "offset Y")
  case None
  then show ?thesis by (simp add: grid_buildGrid_invalid dayCells_def)
next
  case (Some off)
  have shape: "map (map (map_option day)) (grid (buildGrid rd Y d)) =
               map (map (map_option day)) (grid (buildGrid rd Y d'))" for d'
    unfolding grid_buildGrid[OF Some] by (simp add: cell_at_def dayCell_def comp_def)
  have dc: "dayCells (grid (buildGrid rd Y d)) = map (dayCell d) [1 .. totalDays Y]"
    by (rule dayCells_buildGrid[OF Some])
  show ?thesis
    using assms shape unfolding dc by (auto simp: dayCell_def status_of_def)
qed

theorem buildGrid_day_out_of_range_witness:
  "((400::int) < 1 \<or> totalDays 2023 < 400) \<and>
   filter (\<lambda>cl. status cl \<noteq> Past)
     (dayCells (grid (buildGrid (new_Renderer blank_canvas blank_context 1 0) 2023 400))) = []"
  using buildGrid_day_out_of_range[of 400 2023 "new_Renderer blank_canvas blank_context 1 0"]
  by (simp add: totalDays_def isLeap_dvd filter_empty_conv)

section \<open>Properties of \<open>Settings\<close>\<close>

lemma json_value_id: "is_json v \<Longrightarrow> json_value v = v"
proof (induction v)
  case (Arr xs)
  then show ?case by (simp add: list_all_iff map_idI)
next
  case (Obj m)
  have "fmfilter (\<lambda>k. fmlookup m k \<noteq> Some Undefined) (fmmap json_value m) = m"
  proof (rule fmap_ext)
    fix k
    show "fmlookup (fmfilter (\<lambda>k. fmlookup m k \<noteq> Some Undefined) (fmmap json_value m)) k = fmlookup m k"
    proof (cases "fmlookup m k")
      case None
      then show ?thesis by simp
    next
      case (Some v)
      then have "v \<in> fmran' m" by (rule fmran'I)
      moreover have "is_json v" using Obj.prems Some by (auto simp: fmpred_iff)
      ultimately have "json_value v = v" using Obj.IH by simp
      moreover have "v \<noteq> Undefined" using \<open>is_json v\<close> by auto
      ultimately show ?thesis using Some by simp
    qed
  qed
  then show ?case by simp
qed (auto split: jsnum.splits)

lemma state_applySettings: "state (applySettings s) = state s"
  by (simp add: applySettings_def)

lemma state_save: "state (save s) = state s"
  by (simp add: save_def applySettings_def)

lemma load_after_save_state:
  "load (localStorage (save s)) = Inr (defaults ++\<^sub>f own_props (json_value (Obj (state s))))"
  by (simp add: load_def save_def applySettings_def JSON_stringify_def JSON_parse_def)

lemma roundtrip_state:
  assumes "json_state m" "has_defaults m"
  shows "defaults ++\<^sub>f own_props (json_value (Obj m)) = m"
proof -
  have "is_json (Obj m)" using assms(1) by (simp add: json_state_def)
  then have "json_value (Obj m) = Obj m" by (rule json_value_id)
  moreover have "defaults ++\<^sub>f m = m"
  proof (rule fmap_ext)
    fix k
    show "fmlookup (defaults ++\<^sub>f m) k = fmlookup m k"
    proof (cases "k |\<in>| fmdom m")
      case True then show ?thesis by simp
    next
      case False
      then have "k |\<notin>| fmdom defaults" using assms(2) unfolding has_defaults_def by auto
      then show ?thesis using False by (simp add: fmdom_notD)
    qed
  qed
  ultimately show ?thesis by simp
qed

lemma json_state_defaults: "json_state defaults"
  unfolding json_state_def defaults_def by (rule fmpred_of_list) auto

lemma json_state_upd: "json_state m \<Longrightarrow> is_json v \<Longrightarrow> json_state (fmupd k v m)"
  unfolding json_state_def by (rule fmpred_upd)

lemma has_defaults_defaults: "has_defaults defaults"
  by (simp add: has_defaults_def)

lemma has_defaults_add: "has_defaults (defaults ++\<^sub>f b)"
  by (simp add: has_defaults_def)

lemma has_defaults_upd: "has_defaults m \<Longrightarrow> has_defaults (fmupd k v m)"
  unfolding has_defaults_def by auto

lemma state_assign:
  "key \<noteq> ''__proto__'' \<Longrightarrow> state (assign key v s) = fmupd key v (state s)"
  by (simp add: assign_def)

lemma state_update:
  "key \<noteq> ''__proto__'' \<Longrightarrow> state (update key v s) = fmupd key v (state s)"
  by (simp add: update_def state_save state_assign)

lemma state_reset: "state (reset s) = defaults"
  by (simp add: reset_def state_save)

lemma has_defaults_assign: "has_defaults (state s) \<Longrightarrow> has_defaults (state (assign key v s))"
  by (cases v) (simp_all add: assign_def has_defaults_upd)

lemma has_defaults_update: "has_defaults (state s) \<Longrightarrow> has_defaults (state (update key v s))"
  by (simp add: update_def state_save has_defaults_assign)

lemma load_has_defaults:
  assumes "load ls = Inr st"
  shows "has_defaults st"
proof (cases "ls ''memento_settings''")
  case None
  then have "st = defaults" using assms by (simp add: load_def)
  then show ?thesis by (simp add: has_defaults_defaults)
next
  case (Some saved)
  show ?thesis
  proof (cases saved)
    case EmptyText
    then have "st = defaults" using assms Some by (simp add: load_def)
    then show ?thesis by (simp add: has_defaults_defaults)
  next
    case Malformed
    then show ?thesis using assms Some by (simp add: load_def JSON_parse_def)
  next
    case (JSONText v)
    then have "st = defaults ++\<^sub>f own_props v"
      using assms Some by (simp add: load_def JSON_parse_def)
    then show ?thesis by (simp add: has_defaults_add)
  qed
qed

lemma dispatch_has_defaults:
  assumes "has_defaults (state s)"
  shows "has_defaults (state (dispatch e s))"
  using assms
  by (cases e)
     (simp_all add: bind_listener_def theme_listener_def Let_def state_applySettings
        has_defaults_update state_reset has_defaults_defaults)

lemma reachable_has_defaults: "reachable s \<Longrightarrow> has_defaults (state s)"
proof (induction rule: reachable.induct)
  case (start ls doc s)
  then obtain st where st: "load ls = Inr st"
    and s: "s = applySettings \<lparr>state = st, prototype = ObjectPrototype, localStorage = ls, document = doc\<rparr>"
    by (auto simp: new_Settings_def split: sum.splits)
  show ?case
    using load_has_defaults[OF st] by (simp add: s state_applySettings)
next
  case (event s e)
  show ?case by (rule dispatch_has_defaults[OF event.IH])
qed

lemma reachable_fresh: "reachable fresh_settings"
proof -
  have "new_Settings Map.empty blank_document = Inr fresh_settings"
    by (simp add: new_Settings_def load_def fresh_settings_def)
  then show ?thesis by (rule reachable.start[rotated]) simp
qed

lemma state_fresh: "state fresh_settings = defaults"
  by (simp add: fresh_settings_def state_applySettings)

lemma state_overflow: "state overflow_settings = fmupd ''dotSize'' (Num Infinity) defaults"
  by (simp add: overflow_settings_def state_applySettings)

lemma new_Settings_overflow: "new_Settings overflow_storage blank_document = Inr overflow_settings"
proof -
  have "defaults ++\<^sub>f fmupd ''dotSize'' (Num Infinity) fmempty = fmupd ''dotSize'' (Num Infinity) defaults"
    by (rule fmap_ext) simp
  then show ?thesis
    by (simp add: new_Settings_def load_def overflow_storage_def overflow_settings_def JSON_parse_def)
qed

lemma reachable_overflow: "reachable overflow_settings"
  by (rule reachable.start[OF _ new_Settings_overflow])
     (auto simp: overflow_storage_def intro!: fmpred_upd)

lemma load_save_overflow:
  "load (localStorage (save overflow_settings)) = Inr (fmupd ''dotSize'' Null defaults)"
proof -
  have "defaults ++\<^sub>f own_props (json_value (Obj (fmupd ''dotSize'' (Num Infinity) defaults)))
          = fmupd ''dotSize'' Null defaults"
    by (rule fmap_ext) (simp add: defaults_def)
  then show ?thesis by (simp only: load_after_save_state state_overflow)
qed

text \<open>
  Against claim C5 as it is worded: the state that the constructor builds from the stored
  text \<open>{"dotSize":1e400}\<close> holds \<open>Infinity\<close> as its dot size; \<open>save\<close> writes that
  number as \<open>null\<close>, and a fresh \<open>load\<close> returns a state whose dot size is \<open>null\<close>.
\<close>

theorem save_load_overflow_counterexample:
  "reachable overflow_settings
   \<and> fmlookup (state overflow_settings) ''dotSize'' = Some (Num Infinity)
   \<and> load (localStorage (save overflow_settings)) = Inr (fmupd ''dotSize'' Null defaults)
   \<and> state overflow_settings \<noteq> fmupd ''dotSize'' Null defaults"
proof -
  have "fmlookup (state overflow_settings) ''dotSize'' = Some (Num Infinity)"
    by (simp add: state_overflow)
  moreover from this have "state overflow_settings \<noteq> fmupd ''dotSize'' Null defaults"
    by auto
  ultimately show ?thesis
    using reachable_overflow load_save_overflow by simp
qed

text \<open>
  Claim C5, amended. For every settings state the running page can reach and all of whose
  values are JSON values (no \<open>undefined\<close>, no number that is not finite and no
  \<open>-0\<close>),
  \<open>save()\<close> followed by a fresh \<open>load()\<close> on the same storage yields the saved state,
  and \<open>save\<close> leaves the state as it was.
\<close>

theorem save_load_roundtrip:
  assumes "reachable s" and "json_state (state s)"
  shows "load (localStorage (save s)) = Inr (state (save s)) \<and> state (save s) = state s"
proof -
  have "has_defaults (state s)"
    by (rule reachable_has_defaults[OF assms(1)])
  with assms(2) have "defaults ++\<^sub>f own_props (json_value (Obj (state s))) = state s"
    by (rule roundtrip_state)
  then show ?thesis
    by (simp only: load_after_save_state state_save simp_thms)
qed

theorem save_load_roundtrip_witness:
  "reachable (dispatch (DotSize (TextInput ''5'')) fresh_settings)
   \<and> json_state (state (dispatch (DotSize (TextInput ''5'')) fresh_settings))
   \<and> load (localStorage (save (dispatch (DotSize (TextInput ''5'')) fresh_settings))) =
       Inr (fmupd ''dotSize'' (Str ''5'') defaults)"
proof -
  have r: "reachable (dispatch (DotSize (TextInput ''5'')) fresh_settings)"
    by (rule reachable.event[OF reachable_fresh])
  have st: "state (dispatch (DotSize (TextInput ''5'')) fresh_settings) = fmupd ''dotSize'' (Str ''5'') defaults"
    by (simp add: bind_listener_def state_applySettings state_update state_fresh)
  have j: "json_state (state (dispatch (DotSize (TextInput ''5'')) fresh_settings))"
    unfolding st by (simp add: json_state_upd json_state_defaults)
  show ?thesis
    using r j save_load_roundtrip[OF r j] st by (simp add: state_save)
qed

text \<open>
  Against claim C6 as it is worded: on a stored string that is not a JSON text, \<open>load\<close>
  does not return the defaults; \<open>JSON.parse\<close> throws.
\<close>

theorem load_corrupt_counterexample:
  "load (Map.empty(''memento_settings'' \<mapsto> Malformed)) = Inl SyntaxError"
  by (simp add: load_def JSON_parse_def)

text \<open>
  Claim C6, amended. \<open>load()\<close> returns the defaults when the storage has no item or
  an empty one; it throws a \<open>SyntaxError\<close> when the item is any other string that is not
  a JSON text; otherwise it returns the defaults with the properties of the parsed value
  merged over them: a key of the parsed value has the parsed value, any other key its
  default.
\<close>

text \<open>
  Claim C6, amended. \<open>load()\<close> returns the defaults when the storage has no item or
  an empty one; it throws a \<open>SyntaxError\<close> when the item is any other string that is not
  a JSON text; otherwise it returns the defaults with the properties of the parsed value
  merged over them: a key of the parsed value has the parsed value, any other key its
  default.
\<close>

theorem load_cases:
  "load (ls(''memento_settings'' := None)) = Inr defaults
   \<and> load (ls(''memento_settings'' \<mapsto> EmptyText)) = Inr defaults
   \<and> load (ls(''memento_settings'' \<mapsto> Malformed)) = Inl SyntaxError
   \<and> load (ls(''memento_settings'' \<mapsto> JSONText v)) = Inr (defaults ++\<^sub>f own_props v)
   \<and> fmlookup (defaults ++\<^sub>f own_props v) k =
       (case fmlookup (own_props v) k of Some x \<Rightarrow> Some x | None \<Rightarrow> fmlookup defaults k)"
  by (auto simp: load_def JSON_parse_def fmlookup_dom_iff split: option.splits)

text \<open>
  Claim C9. For every settings state, key \<open>k\<close> and value \<open>v\<close>, \<open>update(k, v)\<close> sets
  field \<open>k\<close> of the state to \<open>v\<close>, leaves every other field as it was, and writes the
  resulting state to the storage item, leaving the other items alone.
\<close>




section \<open>Properties of \<open>draw\<close>\<close>


lemma draw_cell_negative:
  "dotSize st < 0 \<Longrightarrow> draw_cell st fr elapsed r c (Some cl) c0 = Inl IndexSizeError"
  by (simp add: draw_cell_def arcTo_def Let_def)





























end
